theory Spec2Isabelle
  imports Main "HOL-Library.Multiset"
begin

section \<open>Text primitives\<close>

text \<open>
  Strings of the program are sequences of UTF-16 code units. They are modelled as
  \<open>string\<close>, a character standing for the code unit with its number: the model covers
  text whose code units are below 256 (ASCII and the Latin-1 supplement). On that range
  \<open>toLowerCase\<close> maps A to Z (65 to 90) and the capital letters U+00C0 to U+00DE, the
  multiplication sign U+00D7 apart, to the letter 32 places further, and leaves every other
  character alone; \<open>trim\<close> removes white space and line terminators from both ends, which
  on that range are tab, line feed, vertical tab, form feed, carriage return, space and the
  no-break space U+00A0; a decimal digit (\<open>\d\<close> in a regular expression without the
  unicode flag) is one of 0 to 9.
\<close>

definition toLowerChar :: "char \<Rightarrow> char" where
  "toLowerChar c =
     (let n = (of_char c :: nat)
      in if (65 \<le> n \<and> n \<le> 90) \<or> (192 \<le> n \<and> n \<le> 222 \<and> n \<noteq> 215)
         then char_of (n + 32)
         else c)"

definition toLowerCase :: "string \<Rightarrow> string" where
  "toLowerCase s = map toLowerChar s"

definition isWhiteSpace :: "char \<Rightarrow> bool" where
  "isWhiteSpace c = (of_char c \<in> {9, 10, 11, 12, 13, 32, 160 :: nat})"

definition trim :: "string \<Rightarrow> string" where
  "trim s = rev (dropWhile isWhiteSpace (rev (dropWhile isWhiteSpace s)))"

text \<open>\<open>s.startsWith(q)\<close> and \<open>s.includes(q)\<close>: \<open>q\<close> occurs in \<open>s\<close> as a contiguous run.\<close>

fun startsWith :: "string \<Rightarrow> string \<Rightarrow> bool" where
  "startsWith s [] = True"
| "startsWith [] (q # qs) = False"
| "startsWith (c # cs) (q # qs) = (c = q \<and> startsWith cs qs)"

fun includes_str :: "string \<Rightarrow> string \<Rightarrow> bool" where
  "includes_str [] q = (q = [])"
| "includes_str (c # cs) q = (startsWith (c # cs) q \<or> includes_str cs q)"

text \<open>\<open>value.split(',')\<close>: the pieces between commas; the empty text gives one empty piece.\<close>

fun split_comma :: "string \<Rightarrow> string list" where
  "split_comma [] = [[]]"
| "split_comma (c # cs) =
     (if c = CHR '','' then [] # split_comma cs
      else (case split_comma cs of
              [] \<Rightarrow> [[c]]
            | t # ts \<Rightarrow> (c # t) # ts))"

text \<open>
  \<^verbatim>\<open>value.split(',').map((token) => token.trim().toLowerCase()).filter(Boolean)\<close>:
  the empty string is the only falsy string, so \<open>filter(Boolean)\<close> drops the empty tokens.
\<close>

definition splitCommaSeparated :: "string \<Rightarrow> string list" where
  "splitCommaSeparated v =
     filter (\<lambda>token. token \<noteq> []) (map (\<lambda>token. toLowerCase (trim token)) (split_comma v))"


section \<open>Data model\<close>

text \<open>
  Modelled from the spec: the type \<open>Job\<close> is declared in \<open>./data/jobs\<close>, outside
  \<open>App.tsx\<close>. The fields are the ones \<open>App.tsx\<close> reads; \<open>JobMode\<close>,
  \<open>JobExperience\<close> and \<open>JobSource\<close> are unions of string literals, that is strings at
  run time, and are modelled as strings. The identifier and the days since posting are
  integers.
\<close>

record Job =
  job_id :: int
  title :: string
  company :: string
  location :: string
  mode :: string
  experience :: string
  salaryRange :: string
  source :: string
  skills :: "string list"
  description :: string
  postedDaysAgo :: int
  applyUrl :: string

record Preferences =
  roleKeywords :: string
  preferredLocations :: "string list"
  preferredModes :: "string list"
  experienceLevel :: string
  skillsPref :: string
  minMatchScore :: int

definition defaultPreferences :: Preferences where
  "defaultPreferences =
     \<lparr> roleKeywords = [], preferredLocations = [], preferredModes = [],
       experienceLevel = [], skillsPref = [], minMatchScore = 40 \<rparr>"


section \<open>Match scorer\<close>

text \<open>
  \<open>computeMatchScore\<close>, statement by statement: \<open>score\<close> starts at 0 and each \<open>if\<close> of
  the source adds its points. \<open>xs.some(p)\<close> is \<open>list_ex p xs\<close>, \<open>xs.includes(x)\<close> on an
  array is membership, a string is truthy when it is not empty.
\<close>

definition computeMatchScore :: "Job \<Rightarrow> Preferences \<Rightarrow> int" where
  "computeMatchScore job preferences =
     (let kws = splitCommaSeparated (roleKeywords preferences);
          prefSkills = splitCommaSeparated (skillsPref preferences);
          titleLower = toLowerCase (title job);
          descriptionLower = toLowerCase (description job);
          s0 = 0;
          s1 = (if kws \<noteq> [] \<and> list_ex (\<lambda>kw. includes_str titleLower kw) kws
                then s0 + 25 else s0);
          s2 = (if kws \<noteq> [] \<and> list_ex (\<lambda>kw. includes_str descriptionLower kw) kws
                then s1 + 15 else s1);
          s3 = (if preferredLocations preferences \<noteq> []
                   \<and> location job \<in> set (preferredLocations preferences)
                then s2 + 15 else s2);
          s4 = (if preferredModes preferences \<noteq> []
                   \<and> mode job \<in> set (preferredModes preferences)
                then s3 + 10 else s3);
          s5 = (if experienceLevel preferences \<noteq> []
                   \<and> experienceLevel preferences = experience job
                then s4 + 10 else s4);
          s6 = (if prefSkills \<noteq> []
                   \<and> list_ex (\<lambda>skill. skill \<in> set prefSkills)
                        (map (\<lambda>s. toLowerCase s) (skills job))
                then s5 + 15 else s5);
          s7 = (if postedDaysAgo job \<le> 2 then s6 + 5 else s6);
          s8 = (if source job = ''LinkedIn'' then s7 + 5 else s7)
      in min s8 100)"


text \<open>
  The scoring criteria as section 4.1 of the specification words them, each with its
  points. Six depend on the preferences; recency and the premium source depend on the
  job alone.
\<close>

datatype criterion =
  RoleInTitle | RoleInDescription | PreferredLocation | PreferredMode
  | ExperienceMatch | SkillOverlap | Recency | PremiumSource

fun points :: "criterion \<Rightarrow> int" where
  "points RoleInTitle = 25"
| "points RoleInDescription = 15"
| "points PreferredLocation = 15"
| "points PreferredMode = 10"
| "points ExperienceMatch = 10"
| "points SkillOverlap = 15"
| "points Recency = 5"
| "points PremiumSource = 5"

fun satisfied :: "criterion \<Rightarrow> Job \<Rightarrow> Preferences \<Rightarrow> bool" where
  "satisfied RoleInTitle job p =
     list_ex (\<lambda>kw. includes_str (toLowerCase (title job)) kw)
       (splitCommaSeparated (roleKeywords p))"
| "satisfied RoleInDescription job p =
     list_ex (\<lambda>kw. includes_str (toLowerCase (description job)) kw)
       (splitCommaSeparated (roleKeywords p))"
| "satisfied PreferredLocation job p = (location job \<in> set (preferredLocations p))"
| "satisfied PreferredMode job p = (mode job \<in> set (preferredModes p))"
| "satisfied ExperienceMatch job p =
     (experienceLevel p \<noteq> [] \<and> experienceLevel p = experience job)"
| "satisfied SkillOverlap job p =
     list_ex (\<lambda>skill. skill \<in> set (splitCommaSeparated (skillsPref p)))
       (map toLowerCase (skills job))"
| "satisfied Recency job p = (postedDaysAgo job \<le> 2)"
| "satisfied PremiumSource job p = (source job = ''LinkedIn'')"

text \<open>The sum of the applicable contributions, before the clamp.\<close>

definition criteriaSum :: "Job \<Rightarrow> Preferences \<Rightarrow> int" where
  "criteriaSum job p =
     (\<Sum>c \<leftarrow> [RoleInTitle, RoleInDescription, PreferredLocation, PreferredMode,
              ExperienceMatch, SkillOverlap, Recency, PremiumSource].
        if satisfied c job p then points c else 0)"


section \<open>Salary extraction\<close>

text \<open>
  \<open>extractSalaryValue\<close> computes with Numbers, that is IEEE 754 doubles. The values it
  handles are non-negative integers and \<open>+Infinity\<close>. \<open>toDouble n\<close> is the Number
  nearest to the non-negative integer \<open>n\<close>: \<open>n\<close> itself below \<open>2 ^ 53\<close>; above, the 53
  leading bits of \<open>n\<close>, rounded to nearest with ties to the even significand;
  \<open>+Infinity\<close> when the rounded value reaches \<open>2 ^ 1024\<close>.
\<close>

datatype number = Num int | PosInfinity

function bitLength :: "int \<Rightarrow> nat" where
  "bitLength n = (if n \<le> 0 then 0 else Suc (bitLength (n div 2)))"
  by pat_completeness auto
termination
  by (relation "measure nat") auto

declare bitLength.simps [simp del]

definition toDouble :: "int \<Rightarrow> number" where
  "toDouble n =
     (if n < 2 ^ 53 then Num n
      else
        (let e = bitLength n - 53;
             q = n div 2 ^ e;
             r = n mod 2 ^ e;
             half = 2 ^ (e - 1);
             q' = (if half < r \<or> (r = half \<and> odd q) then q + 1 else q);
             v = q' * 2 ^ e
         in if 1024 < bitLength v then PosInfinity else Num v))"

text \<open>
  \<open>value *= k\<close> for an integer \<open>k\<close> that is a double: the exact product, rounded.
\<close>

fun timesNumber :: "number \<Rightarrow> int \<Rightarrow> number" where
  "timesNumber (Num a) k = toDouble (a * k)"
| "timesNumber PosInfinity k = PosInfinity"

text \<open>
  \<open>b - a\<close> as a sort comparator reads it: only the sign counts, and the sign of the
  rounded difference of two integers is the sign of their difference.
  \<open>Infinity - Infinity\<close> is \<open>NaN\<close>, which \<open>sort\<close> takes as 0.
\<close>

fun minusNumber :: "number \<Rightarrow> number \<Rightarrow> int" where
  "minusNumber (Num b) (Num a) = b - a"
| "minusNumber PosInfinity (Num a) = 1"
| "minusNumber (Num b) PosInfinity = - 1"
| "minusNumber PosInfinity PosInfinity = 0"

definition isDigit :: "char \<Rightarrow> bool" where
  "isDigit c = (c \<in> set ''0123456789'')"

definition digitValue :: "char \<Rightarrow> int" where
  "digitValue c = int (of_char c) - 48"

text \<open>
  \<^verbatim>\<open>salaryRange.match(/(\d+)/)\<close>: the matcher tries each start position from the left;
  at the first position holding a digit, \<open>\d+\<close> takes the digits greedily. The result is
  the captured group, or \<open>None\<close> when no position matches.
\<close>

fun match_digits :: "string \<Rightarrow> string option" where
  "match_digits [] = None"
| "match_digits (c # cs) =
     (if isDigit c then Some (takeWhile isDigit (c # cs)) else match_digits cs)"

text \<open>
  \<open>Number.parseInt(digits, 10)\<close> on a run of decimal digits: the integer the digits
  denote, converted to a Number. (Beyond 20 significant digits the language lets an
  implementation read the further digits as 0 before converting; the model converts the
  integer as written.)
\<close>

definition parseInt :: "string \<Rightarrow> number" where
  "parseInt ds = toDouble (foldl (\<lambda>acc c. acc * 10 + digitValue c) 0 ds)"

text \<open>The integer a run of decimal digits denotes, by position.\<close>

definition decimalValue :: "string \<Rightarrow> int" where
  "decimalValue ds = (\<Sum>i < length ds. digitValue (ds ! i) * 10 ^ (length ds - Suc i))"

definition extractSalaryValue :: "string \<Rightarrow> number" where
  "extractSalaryValue salaryRange' =
     (case match_digits salaryRange' of
        None \<Rightarrow> Num 0
      | Some m \<Rightarrow>
          (let v = parseInt m;
               lower = toLowerCase salaryRange'
           in if includes_str lower ''lpa'' then timesNumber v 100000
              else if includes_str lower ''k'' then timesNumber v 1000
              else v))"


section \<open>View engine\<close>

datatype JobStatus = NotApplied | Applied | Rejected | Selected

record JobStatusRecord =
  status :: JobStatus
  updatedAt :: string

datatype SortOrder = latest | matchScore | salary

text \<open>
  \<open>Filters\<close>: the empty string is the unset value of every text filter; the unset value
  of the status filter (\<open>''\<close> in the source) is \<open>None\<close>.
\<close>

record Filters =
  keyword :: string
  locationF :: string
  modeF :: string
  experienceF :: string
  sourceF :: string
  sortF :: SortOrder
  statusF :: "JobStatus option"

definition initialFilters :: Filters where
  "initialFilters =
     \<lparr> keyword = [], locationF = [], modeF = [], experienceF = [], sourceF = [],
       sortF = latest, statusF = None \<rparr>"

text \<open>
  \<open>Array.prototype.sort(compare)\<close> is a stable sort. It is modelled as a stable insertion
  sort driven by the comparator: \<open>x\<close> goes in front of the first element \<open>y\<close> with
  \<open>compare(x, y) \<le> 0\<close>; elements are inserted from the right, so equal elements keep
  their order.
\<close>

fun insert_by :: "('a \<Rightarrow> 'a \<Rightarrow> int) \<Rightarrow> 'a \<Rightarrow> 'a list \<Rightarrow> 'a list" where
  "insert_by cmp x [] = [x]"
| "insert_by cmp x (y # ys) =
     (if cmp x y \<le> 0 then x # y # ys else y # insert_by cmp x ys)"

definition sort_by :: "('a \<Rightarrow> 'a \<Rightarrow> int) \<Rightarrow> 'a list \<Rightarrow> 'a list" where
  "sort_by cmp xs = foldr (insert_by cmp) xs []"

definition jobsWithScores :: "Job list \<Rightarrow> Preferences \<Rightarrow> (Job \<times> int) list" where
  "jobsWithScores jobs preferences =
     map (\<lambda>job. (job, computeMatchScore job preferences)) jobs"

text \<open>\<^verbatim>\<open>jobStatuses[job.id]?.status ?? 'Not Applied'\<close>\<close>

definition statusOf :: "(int \<rightharpoonup> JobStatusRecord) \<Rightarrow> Job \<Rightarrow> JobStatus" where
  "statusOf jobStatuses job =
     (case jobStatuses (job_id job) of
        None \<Rightarrow> NotApplied
      | Some statusRecord \<Rightarrow> status statusRecord)"

text \<open>
  The status a job card reports:
  \<^verbatim>\<open>jobStatuses[job.id]?.status ? jobStatuses[job.id]!.status : 'Not Applied'\<close>
  (every \<open>JobStatus\<close> is a non-empty string, hence truthy).
\<close>

definition cardStatus :: "(int \<rightharpoonup> JobStatusRecord) \<Rightarrow> Job \<Rightarrow> JobStatus" where
  "cardStatus jobStatuses job =
     (case jobStatuses (job_id job) of
        None \<Rightarrow> NotApplied
      | Some statusRecord \<Rightarrow> status statusRecord)"

definition compareView :: "Filters \<Rightarrow> Job \<times> int \<Rightarrow> Job \<times> int \<Rightarrow> int" where
  "compareView filters a b =
     (if sortF filters = matchScore then snd b - snd a
      else if sortF filters = salary then
        minusNumber (extractSalaryValue (salaryRange (fst b)))
          (extractSalaryValue (salaryRange (fst a)))
      else postedDaysAgo (fst a) - postedDaysAgo (fst b))"

text \<open>
  The memoised \<open>filteredJobs\<close> of \<open>JobsDashboard\<close>, as a function of its dependencies
  and of the status map it reads. The keyword filter is set when the keyword is not blank
  after \<open>trim\<close>; the text matched is the whole keyword, lower-cased. \<open>minMatchScore\<close> is
  a number, so \<^verbatim>\<open>preferences.minMatchScore ?? 40\<close> is \<open>minMatchScore\<close> itself.
\<close>

definition filteredJobs ::
  "(Job \<times> int) list \<Rightarrow> Filters \<Rightarrow> bool \<Rightarrow> bool \<Rightarrow> Preferences
     \<Rightarrow> (int \<rightharpoonup> JobStatusRecord) \<Rightarrow> (Job \<times> int) list" where
  "filteredJobs scored filters showOnlyMatches hasPrefs preferences jobStatuses =
     (let r0 = scored;
          r1 = (if trim (keyword filters) \<noteq> [] then
                  (let q = toLowerCase (keyword filters)
                   in filter (\<lambda>(job, sc). includes_str (toLowerCase (title job)) q
                                \<or> includes_str (toLowerCase (company job)) q) r0)
                else r0);
          r2 = (if locationF filters \<noteq> [] then
                  filter (\<lambda>(job, sc). location job = locationF filters) r1
                else r1);
          r3 = (if modeF filters \<noteq> [] then
                  filter (\<lambda>(job, sc). mode job = modeF filters) r2
                else r2);
          r4 = (if experienceF filters \<noteq> [] then
                  filter (\<lambda>(job, sc). experience job = experienceF filters) r3
                else r3);
          r5 = (if sourceF filters \<noteq> [] then
                  filter (\<lambda>(job, sc). source job = sourceF filters) r4
                else r4);
          r6 = (case statusF filters of
                  None \<Rightarrow> r5
                | Some wanted \<Rightarrow> filter (\<lambda>(job, sc). statusOf jobStatuses job = wanted) r5);
          r7 = (if showOnlyMatches \<and> hasPrefs then
                  (let threshold = minMatchScore preferences
                   in filter (\<lambda>(job, sc). sc \<ge> threshold) r6)
                else r6)
      in sort_by (compareView filters) r7)"

text \<open>\<open>hasPreferences\<close> of \<open>App\<close>: some field other than the threshold is filled in.\<close>

definition hasPreferences :: "Preferences \<Rightarrow> bool" where
  "hasPreferences preferences =
     (trim (roleKeywords preferences) \<noteq> []
      \<or> trim (skillsPref preferences) \<noteq> []
      \<or> preferredLocations preferences \<noteq> []
      \<or> preferredModes preferences \<noteq> []
      \<or> experienceLevel preferences \<noteq> [])"

text \<open>The list \<open>JobsDashboard\<close> shows, for the props \<open>App\<close> passes to it.\<close>

definition dashboardJobs ::
  "Job list \<Rightarrow> Preferences \<Rightarrow> (int \<rightharpoonup> JobStatusRecord) \<Rightarrow> Filters \<Rightarrow> bool
     \<Rightarrow> (Job \<times> int) list" where
  "dashboardJobs jobs preferences jobStatuses filters showOnlyMatches =
     filteredJobs (jobsWithScores jobs preferences) filters showOnlyMatches
       (hasPreferences preferences) preferences jobStatuses"







section \<open>Digest generator\<close>

record DigestItem =
  jobId :: int
  score :: int

record DigestState =
  date :: string
  items :: "DigestItem list"

text \<open>
  What \<open>localStorage\<close> holds under a digest key, by what \<open>generateDigest\<close> makes of it:
  the empty text (falsy), a text \<open>JSON.parse\<close> rejects, a JSON value that is not an
  object with an array \<open>items\<close>, or a snapshot \<^verbatim>\<open>{items: [...]}\<close>.
\<close>

datatype stored = EmptyText | Unparsable | NoItemsArray | Snapshot "DigestItem list"

datatype error = SyntaxError

record DigestPage =
  storage :: "string \<rightharpoonup> stored"
  digest :: "DigestState option"
  isGenerating :: bool
  noMatchesToday :: bool

text \<open>\<open>getTodayDigestKey\<close>, for the date text \<open>YYYY-MM-DD\<close> of the local clock.\<close>

text \<open>
  The page when it opens: the initial component state, then the effect that loads the
  snapshot stored under today's key (a parse error is caught and ignored there).
\<close>

definition openDigestPage :: "(string \<rightharpoonup> stored) \<Rightarrow> string \<Rightarrow> string \<Rightarrow> DigestPage" where
  "openDigestPage store digestKey dateStr =
     (let st = \<lparr> storage = store, digest = None, isGenerating = False,
                  noMatchesToday = False \<rparr>
      in case store digestKey of
           Some (Snapshot its) \<Rightarrow>
             st\<lparr> digest := Some \<lparr> date = dateStr, items = its \<rparr>,
                 noMatchesToday := (its = []) \<rparr>
         | _ \<Rightarrow> st)"

definition digestKeyOf :: "string \<Rightarrow> string" where
  "digestKeyOf dateStr = ''jobTrackerDigest_'' @ dateStr"

definition compareDigest :: "Job \<times> int \<Rightarrow> Job \<times> int \<Rightarrow> int" where
  "compareDigest a b =
     (if snd b \<noteq> snd a then snd b - snd a
      else postedDaysAgo (fst a) - postedDaysAgo (fst b))"

text \<open>The path of \<open>generateDigest\<close> that computes and persists a new snapshot.\<close>

definition computeDigest ::
  "Job list \<Rightarrow> Preferences \<Rightarrow> string \<Rightarrow> string \<Rightarrow> DigestPage \<Rightarrow> DigestPage" where
  "computeDigest JOBS preferences digestKey dateStr st =
     (let scored = map (\<lambda>job. (job, computeMatchScore job preferences)) JOBS;
          matching = filter (\<lambda>(job, sc). sc > 0) scored
      in if matching = [] then
           st\<lparr> storage := (storage st)(digestKey \<mapsto> Snapshot []),
               digest := Some \<lparr> date = dateStr, items = [] \<rparr>,
               noMatchesToday := True,
               isGenerating := False \<rparr>
         else
           (let sorted' = sort_by compareDigest matching;
                top10 = take 10 sorted';
                its = map (\<lambda>(job, sc). \<lparr> jobId = job_id job, score = sc \<rparr>) top10
            in st\<lparr> storage := (storage st)(digestKey \<mapsto> Snapshot its),
                   digest := Some \<lparr> date = dateStr, items = its \<rparr>,
                   noMatchesToday := False,
                   isGenerating := False \<rparr>))"

text \<open>
  \<open>generateDigest\<close>. The \<open>try\<close> has a \<open>finally\<close> and no \<open>catch\<close>: when \<open>JSON.parse\<close>
  throws, the exception leaves the handler. The result is then the error with the state
  the page is left in: \<open>finally\<close> has reset \<open>isGenerating\<close>, nothing has been scored,
  exposed or written.
\<close>

definition generateDigest ::
  "Job list \<Rightarrow> Preferences \<Rightarrow> bool \<Rightarrow> string \<Rightarrow> string \<Rightarrow> DigestPage
     \<Rightarrow> (error \<times> DigestPage) + DigestPage" where
  "generateDigest JOBS preferences hasPrefs digestKey dateStr st =
     (if \<not> hasPrefs then Inr st
      else case storage st digestKey of
          None \<Rightarrow> Inr (computeDigest JOBS preferences digestKey dateStr st)
        | Some EmptyText \<Rightarrow> Inr (computeDigest JOBS preferences digestKey dateStr st)
        | Some Unparsable \<Rightarrow> Inl (SyntaxError, st\<lparr> isGenerating := False \<rparr>)
        | Some NoItemsArray \<Rightarrow> Inr (computeDigest JOBS preferences digestKey dateStr st)
        | Some (Snapshot its) \<Rightarrow>
            Inr (st\<lparr> digest := Some \<lparr> date = dateStr, items = its \<rparr>,
                     noMatchesToday := (its = []),
                     isGenerating := False \<rparr>))"

text \<open>
  The three views of the digest card: the "no matching roles" note, the list of jobs,
  and the prompt to generate. \<open>digestJobs\<close> keeps the items whose job is in the catalog.
\<close>

datatype digestView = EmptyView | PopulatedView | PromptView

definition digestJobs :: "Job list \<Rightarrow> DigestPage \<Rightarrow> (Job \<times> int) list" where
  "digestJobs JOBS st =
     (case digest st of
        None \<Rightarrow> []
      | Some d \<Rightarrow>
          concat (map (\<lambda>it. case find (\<lambda>job. job_id job = jobId it) (rev JOBS) of
                               None \<Rightarrow> []
                             | Some job \<Rightarrow> [(job, score it)]) (items d)))"

definition digestViewOf :: "Job list \<Rightarrow> DigestPage \<Rightarrow> digestView" where
  "digestViewOf JOBS st =
     (if noMatchesToday st then EmptyView
      else if digest st \<noteq> None \<and> digestJobs JOBS st \<noteq> [] then PopulatedView
      else PromptView)"


section \<open>Saved set\<close>

text \<open>
  The saved identifiers in memory, and the list persisted under \<open>jnt-saved-jobs\<close>
  (\<open>None\<close> while nothing has been written).
\<close>

record SavedState =
  savedJobIds :: "int list"
  savedStore :: "int list option"

definition initialSaved :: SavedState where
  "initialSaved = \<lparr> savedJobIds = [], savedStore = None \<rparr>"

definition handleSaveJob :: "int \<Rightarrow> SavedState \<Rightarrow> SavedState" where
  "handleSaveJob i st =
     (if i \<in> set (savedJobIds st) then st
      else (let next = savedJobIds st @ [i]
            in st\<lparr> savedJobIds := next, savedStore := Some next \<rparr>))"

text \<open>The effect that loads the persisted list when the application starts.\<close>

definition loadSaved :: "SavedState \<Rightarrow> SavedState" where
  "loadSaved st =
     (case savedStore st of
        None \<Rightarrow> st
      | Some parsed \<Rightarrow> st\<lparr> savedJobIds := parsed \<rparr>)"


text \<open>
  A new session starts with no saved identifiers in memory and then loads the persisted
  list. The saved set changes by saving a job or by starting a new session.
\<close>

definition restart :: "SavedState \<Rightarrow> SavedState" where
  "restart st = loadSaved (st\<lparr> savedJobIds := [] \<rparr>)"

datatype savedAction = SaveJob int | Restart

fun step :: "savedAction \<Rightarrow> SavedState \<Rightarrow> SavedState" where
  "step (SaveJob i) st = handleSaveJob i st"
| "step Restart st = restart st"

text \<open>
  The invariant of the saved set: no identifier occurs twice, in memory or in the
  persisted list.
\<close>

definition savedInv :: "SavedState \<Rightarrow> bool" where
  "savedInv st = (distinct (savedJobIds st)
                  \<and> (case savedStore st of None \<Rightarrow> True | Some xs \<Rightarrow> distinct xs))"


section \<open>A small catalog\<close>

text \<open>
  The three jobs of the end-to-end scenario of the specification, with the fields it
  leaves open filled in, and preferences with the role keyword \<open>react\<close>.
\<close>

definition jobA :: Job where
  "jobA = \<lparr> job_id = 1, title = ''React Developer'', company = ''Acme'',
            location = ''Pune'', mode = ''Remote'', experience = ''1-3'',
            salaryRange = ''12 LPA'', source = ''LinkedIn'', skills = [''React'', ''CSS''],
            description = ''Build dashboards'', postedDaysAgo = 1,
            applyUrl = ''https://example.com/a'' \<rparr>"

definition jobB :: Job where
  "jobB = \<lparr> job_id = 2, title = ''Java Backend'', company = ''Initech'',
            location = ''Bengaluru'', mode = ''Onsite'', experience = ''3-5'',
            salaryRange = ''8k'', source = ''Naukri'', skills = [''Java''],
            description = ''Maintain services'', postedDaysAgo = 10,
            applyUrl = ''https://example.com/b'' \<rparr>"

definition jobC :: Job where
  "jobC = \<lparr> job_id = 3, title = ''React Intern'', company = ''Globex'',
            location = ''Pune'', mode = ''Hybrid'', experience = ''Fresher'',
            salaryRange = ''15k'', source = ''Indeed'', skills = [''React''],
            description = ''Learn react on the job'', postedDaysAgo = 0,
            applyUrl = ''https://example.com/c'' \<rparr>"

definition reactPreferences :: Preferences where
  "reactPreferences = defaultPreferences\<lparr> roleKeywords := ''react'' \<rparr>"

definition today :: string where
  "today = ''2026-01-05''"




text \<open>Today's key holding a text that is not JSON.\<close>

definition brokenStore :: "string \<rightharpoonup> stored" where
  "brokenStore = [digestKeyOf today \<mapsto> Unparsable]"



section \<open>The score is bounded\<close>

text \<open>
  C1: for every job and every preferences value, \<open>computeMatchScore\<close> returns an integer
  between 0 and 100 (the score is an \<open>int\<close> by its type).
\<close>

theorem computeMatchScore_range:
  "0 \<le> computeMatchScore job preferences \<and> computeMatchScore job preferences \<le> 100"
  unfolding computeMatchScore_def Let_def by simp


theorem computeMatchScore_range_witness:
  "0 \<le> computeMatchScore jobA reactPreferences \<and> computeMatchScore jobA reactPreferences \<le> 100"
  using computeMatchScore_range [of jobA reactPreferences] by simp


section \<open>Substrings\<close>

lemma startsWith_iff: "startsWith s q \<longleftrightarrow> (\<exists>post. s = q @ post)"
  by (induction s q rule: startsWith.induct) auto

text \<open>\<open>includes_str s q\<close> holds exactly when \<open>q\<close> is a contiguous part of \<open>s\<close>.\<close>

lemma includes_str_iff: "includes_str s q \<longleftrightarrow> (\<exists>pre post. s = pre @ q @ post)"
proof (induction s)
  case Nil
  then show ?case by simp
next
  case (Cons c cs)
  show ?case
  proof
    assume "includes_str (c # cs) q"
    then consider "startsWith (c # cs) q" | "includes_str cs q" by auto
    then show "\<exists>pre post. c # cs = pre @ q @ post"
    proof cases
      case 1
      then obtain post where "c # cs = q @ post" by (auto simp: startsWith_iff)
      then have "c # cs = [] @ q @ post" by simp
      then show ?thesis by blast
    next
      case 2
      then obtain pre post where "cs = pre @ q @ post" using Cons.IH by blast
      then have "c # cs = (c # pre) @ q @ post" by simp
      then show ?thesis by blast
    qed
  next
    assume "\<exists>pre post. c # cs = pre @ q @ post"
    then obtain pre post where eq: "c # cs = pre @ q @ post" by blast
    show "includes_str (c # cs) q"
    proof (cases pre)
      case Nil
      with eq have "startsWith (c # cs) q" by (auto simp: startsWith_iff)
      then show ?thesis by simp
    next
      case (Cons a pre')
      with eq have "cs = pre' @ q @ post" by simp
      then have "includes_str cs q" using Cons.IH by blast
      then show ?thesis by simp
    qed
  qed
qed



section \<open>Lower-casing and trimming on the Latin-1 range\<close>

text \<open>
  \<open>toLowerCase\<close> at the ends of the two ranges of capital letters and just outside
  them, and \<open>trim\<close> on the seven white-space characters (U+0085 is not one of them).
\<close>

lemma toLowerCase_latin1:
  "map (of_char :: char \<Rightarrow> nat)
     (toLowerCase [CHR 0x40, CHR 0x41, CHR 0x5A, CHR 0x5B, CHR 0xBF, CHR 0xC0, CHR 0xD6,
                   CHR 0xD7, CHR 0xD8, CHR 0xDE, CHR 0xDF, CHR 0xFF])
   = [0x40, 0x61, 0x7A, 0x5B, 0xBF, 0xE0, 0xF6, 0xD7, 0xF8, 0xFE, 0xDF, 0xFF]"
  by code_simp

lemma trim_white_space:
  "trim ([CHR 0x09, CHR 0x0A, CHR 0x0B, CHR 0x0C, CHR 0x0D, CHR 0x20, CHR 0xA0] @ ''a b''
           @ [CHR 0xA0, CHR 0x20]) = ''a b''"
  "trim [CHR 0xA0] = []"
  "trim [CHR 0x85] = [CHR 0x85]"
  by code_simp+

lemma hasPreferences_no_break_space:
  "\<not> hasPreferences (defaultPreferences\<lparr> roleKeywords := [CHR 0xA0, CHR 0x20] \<rparr>)"
  by code_simp

section \<open>The score is monotonic in the criteria\<close>

text \<open>The code computes the clamped sum of the contributions of section 4.1.\<close>

lemma computeMatchScore_criteriaSum:
  "computeMatchScore job p = min (criteriaSum job p) 100"
  unfolding computeMatchScore_def Let_def criteriaSum_def
  by (simp add: list_ex_iff)

text \<open>
  C2: when the preferences change so that one more criterion \<open>c\<close> of section 4.1 is
  satisfied, and every other criterion is satisfied exactly as before, the score of the
  job does not decrease.
\<close>

theorem computeMatchScore_monotone:
  assumes "satisfied c job p'"
    and "\<forall>d. d \<noteq> c \<longrightarrow> satisfied d job p' = satisfied d job p"
  shows "computeMatchScore job p \<le> computeMatchScore job p'"
proof -
  have up: "satisfied d job p \<Longrightarrow> satisfied d job p'" for d
    using assms by (cases "d = c") auto
  have contrib: "(if satisfied d job p then points d else 0)
                \<le> (if satisfied d job p' then points d else 0)" for d
    using up [of d] by (cases d) auto
  have "criteriaSum job p \<le> criteriaSum job p'"
    unfolding criteriaSum_def
    using contrib [of RoleInTitle] contrib [of RoleInDescription]
      contrib [of PreferredLocation] contrib [of PreferredMode]
      contrib [of ExperienceMatch] contrib [of SkillOverlap]
      contrib [of Recency] contrib [of PremiumSource]
    by (simp del: satisfied.simps points.simps)
  then show ?thesis
    by (simp add: computeMatchScore_criteriaSum)
qed

theorem computeMatchScore_monotone_witness:
  "computeMatchScore jobA defaultPreferences \<le> computeMatchScore jobA reactPreferences"
proof -
  have h1: "satisfied RoleInTitle jobA reactPreferences"
    by code_simp
  have h2: "\<forall>d. d \<noteq> RoleInTitle
              \<longrightarrow> satisfied d jobA reactPreferences = satisfied d jobA defaultPreferences"
  proof (intro allI impI)
    fix d :: criterion
    assume "d \<noteq> RoleInTitle"
    then show "satisfied d jobA reactPreferences = satisfied d jobA defaultPreferences"
      by (cases d)
        (simp_all add: jobA_def reactPreferences_def defaultPreferences_def
          splitCommaSeparated_def trim_def isWhiteSpace_def toLowerCase_def toLowerChar_def)
  qed
  show ?thesis
    using computeMatchScore_monotone [OF h1 h2] .
qed


section \<open>Salary extraction follows the first run of digits\<close>

lemma decimalValue_snoc: "decimalValue (ds @ [c]) = decimalValue ds * 10 + digitValue c"
proof -
  have "(\<Sum>i < length ds. digitValue ((ds @ [c]) ! i) * 10 ^ (length (ds @ [c]) - Suc i))
        = (\<Sum>i < length ds. (digitValue (ds ! i) * 10 ^ (length ds - Suc i)) * 10)"
  proof (rule sum.cong)
    fix i assume "i \<in> {..<length ds}"
    then have lt: "i < length ds" by simp
    then have "length (ds @ [c]) - Suc i = Suc (length ds - Suc i)" by simp
    with lt show "digitValue ((ds @ [c]) ! i) * 10 ^ (length (ds @ [c]) - Suc i)
             = (digitValue (ds ! i) * 10 ^ (length ds - Suc i)) * 10"
      by (simp add: nth_append)
  qed simp
  then show ?thesis
    by (simp add: decimalValue_def sum_distrib_right)
qed

lemma foldl_decimalValue:
  "foldl (\<lambda>acc c. acc * 10 + digitValue c) 0 ds = decimalValue ds"
proof (induction ds rule: rev_induct)
  case Nil
  show ?case by (simp add: decimalValue_def)
next
  case (snoc c ds)
  then show ?case by (simp add: decimalValue_snoc)
qed

lemma parseInt_decimalValue: "parseInt ds = toDouble (decimalValue ds)"
  by (simp add: parseInt_def foldl_decimalValue)

lemma digitValue_nonneg: "isDigit c \<Longrightarrow> 0 \<le> digitValue c"
  by (auto simp: isDigit_def digitValue_def)

lemma decimalValue_nonneg: "list_all isDigit ds \<Longrightarrow> 0 \<le> decimalValue ds"
  unfolding decimalValue_def
  by (rule sum_nonneg) (simp add: list_all_length digitValue_nonneg)

text \<open>Below \<open>2 ^ 53\<close> the arithmetic of Numbers is the arithmetic of integers.\<close>

lemma toDouble_exact: "n < 2 ^ 53 \<Longrightarrow> toDouble n = Num n"
  by (simp add: toDouble_def)

lemma timesNumber_exact:
  assumes "0 \<le> a" and "1 \<le> k" and "a * k < 2 ^ 53"
  shows "timesNumber (toDouble a) k = Num (a * k)"
proof -
  have "a * 1 \<le> a * k"
    using assms(1,2) by (intro mult_left_mono) simp_all
  then have "a < 2 ^ 53"
    using assms(3) by simp
  then show ?thesis
    using assms(3) by (simp add: toDouble_exact)
qed

lemma match_digits_none: "list_all (\<lambda>c. \<not> isDigit c) s \<Longrightarrow> match_digits s = None"
  by (induction s) auto

lemma takeWhile_run:
  assumes "list_all isDigit run" and "case post of [] \<Rightarrow> True | c # _ \<Rightarrow> \<not> isDigit c"
  shows "takeWhile isDigit (run @ post) = run"
proof -
  have "takeWhile isDigit post = []"
    using assms(2) by (cases post) auto
  moreover have "takeWhile isDigit (run @ post) = run @ takeWhile isDigit post"
    using assms(1) by (simp add: list_all_iff takeWhile_append2)
  ultimately show ?thesis by simp
qed

lemma match_digits_run:
  assumes "list_all (\<lambda>c. \<not> isDigit c) pre" and "run \<noteq> []" and "list_all isDigit run"
    and "case post of [] \<Rightarrow> True | c # _ \<Rightarrow> \<not> isDigit c"
  shows "match_digits (pre @ run @ post) = Some run"
  using assms(1)
proof (induction pre)
  case Nil
  obtain r rs where run: "run = r # rs" using assms(2) by (cases run) auto
  have "isDigit r" using assms(3) run by simp
  moreover have "takeWhile isDigit (run @ post) = run"
    using takeWhile_run [OF assms(3) assms(4)] .
  ultimately show ?case using run by simp
next
  case (Cons a pre)
  then show ?case by simp
qed

text \<open>A text holds no digit, or it splits at its first run of digits.\<close>

lemma first_run_exists:
  assumes "\<not> list_all (\<lambda>c. \<not> isDigit c) s"
  shows "\<exists>pre run post. s = pre @ run @ post
           \<and> list_all (\<lambda>c. \<not> isDigit c) pre \<and> run \<noteq> [] \<and> list_all isDigit run
           \<and> (case post of [] \<Rightarrow> True | c # _ \<Rightarrow> \<not> isDigit c)"
proof -
  define pre where "pre = takeWhile (\<lambda>c. \<not> isDigit c) s"
  define rest where "rest = dropWhile (\<lambda>c. \<not> isDigit c) s"
  define run where "run = takeWhile isDigit rest"
  define post where "post = dropWhile isDigit rest"
  have s: "s = pre @ run @ post"
    by (simp add: pre_def rest_def run_def post_def)
  have p: "list_all (\<lambda>c. \<not> isDigit c) pre"
    unfolding pre_def list_all_iff by (auto dest: set_takeWhileD)
  have "rest \<noteq> []"
    using assms unfolding rest_def list_all_iff by (auto simp: dropWhile_eq_Nil_conv)
  then have "isDigit (hd rest)"
    unfolding rest_def using hd_dropWhile [of "\<lambda>c. \<not> isDigit c" s] by auto
  with \<open>rest \<noteq> []\<close> have r: "run \<noteq> []"
    unfolding run_def by (cases rest) auto
  have d: "list_all isDigit run"
    unfolding run_def list_all_iff by (auto dest: set_takeWhileD)
  have q: "case post of [] \<Rightarrow> True | c # _ \<Rightarrow> \<not> isDigit c"
  proof (cases post)
    case Nil
    then show ?thesis by simp
  next
    case (Cons c cs)
    then have "post \<noteq> []" by simp
    then have "\<not> isDigit (hd post)"
      unfolding post_def using hd_dropWhile [of isDigit rest] by auto
    with Cons show ?thesis by simp
  qed
  show ?thesis using s p r d q by blast
qed

lemma extractSalaryValue_run:
  assumes "list_all (\<lambda>c. \<not> isDigit c) pre" and "run \<noteq> []" and "list_all isDigit run"
    and "case post of [] \<Rightarrow> True | c # _ \<Rightarrow> \<not> isDigit c"
  shows "extractSalaryValue (pre @ run @ post)
          = (if includes_str (toLowerCase (pre @ run @ post)) ''lpa''
               then timesNumber (toDouble (decimalValue run)) 100000
             else if includes_str (toLowerCase (pre @ run @ post)) ''k''
               then timesNumber (toDouble (decimalValue run)) 1000
             else toDouble (decimalValue run))"
  using match_digits_run [OF assms]
  by (simp add: extractSalaryValue_def Let_def parseInt_decimalValue)

lemma lower_12k: "toLowerCase ''12k'' = ''12k''"
  by code_simp

lemma lower_10_LPA: "toLowerCase ''10 LPA'' = ''10 lpa''"
  by code_simp

lemma lower_2882303761519_LPA: "toLowerCase ''2882303761519 LPA'' = ''2882303761519 lpa''"
  by code_simp

lemma lower_9007199254740993: "toLowerCase ''9007199254740993'' = ''9007199254740993''"
  by code_simp

lemma lower_no_digits: "toLowerCase ''no digits'' = ''no digits''"
  by code_simp

lemma lower_Rs_45K:
  "toLowerCase ''Rs 45K per month, 2 openings'' = ''rs 45k per month, 2 openings''"
  by code_simp

text \<open>
  C3: a text without a digit gives 0. A text \<open>pre @ run @ post\<close> whose first run of
  decimal digits is \<open>run\<close> (no digit in \<open>pre\<close>, \<open>run\<close> not empty and all digits, \<open>post\<close>
  empty or starting with a non-digit) gives the Number parsed from \<open>run\<close>, that is the
  double nearest to its decimal value, multiplied (as Numbers are) by 100000 when the
  lower-cased text contains \<open>lpa\<close>, else by 1000 when the lower-cased text contains
  \<open>k\<close>, else as it is; whenever the product of the decimal value and the multiplier is
  below \<open>2 ^ 53\<close> the result is exactly that product. The three examples of the
  specification hold, and two texts above \<open>2 ^ 53\<close> show the rounding of Numbers. Every
  text is of one of the two kinds.
\<close>

theorem extractSalaryValue_spec:
  "(list_all (\<lambda>c. \<not> isDigit c) s \<longrightarrow> extractSalaryValue s = Num 0)
   \<and> (list_all (\<lambda>c. \<not> isDigit c) pre \<and> run \<noteq> [] \<and> list_all isDigit run
        \<and> (case post of [] \<Rightarrow> True | c # _ \<Rightarrow> \<not> isDigit c)
      \<longrightarrow> extractSalaryValue (pre @ run @ post)
          = (if includes_str (toLowerCase (pre @ run @ post)) ''lpa''
               then timesNumber (toDouble (decimalValue run)) 100000
             else if includes_str (toLowerCase (pre @ run @ post)) ''k''
               then timesNumber (toDouble (decimalValue run)) 1000
             else toDouble (decimalValue run))
        \<and> (let m = (if includes_str (toLowerCase (pre @ run @ post)) ''lpa'' then 100000
                     else if includes_str (toLowerCase (pre @ run @ post)) ''k'' then 1000
                     else 1)
           in decimalValue run * m < 2 ^ 53
              \<longrightarrow> extractSalaryValue (pre @ run @ post) = Num (decimalValue run * m)))
   \<and> extractSalaryValue ''12k'' = Num 12000
   \<and> extractSalaryValue ''10 LPA'' = Num 1000000
   \<and> extractSalaryValue ''no digits'' = Num 0
   \<and> extractSalaryValue ''9007199254740993'' = Num 9007199254740992
   \<and> extractSalaryValue ''2882303761519 LPA'' = Num 288230376151900032
   \<and> (list_all (\<lambda>c. \<not> isDigit c) s
       \<or> (\<exists>pre' run' post'. s = pre' @ run' @ post'
             \<and> list_all (\<lambda>c. \<not> isDigit c) pre' \<and> run' \<noteq> [] \<and> list_all isDigit run'
             \<and> (case post' of [] \<Rightarrow> True | c # _ \<Rightarrow> \<not> isDigit c)))"
proof (intro conjI impI)
  show "list_all (\<lambda>c. \<not> isDigit c) s
       \<or> (\<exists>pre' run' post'. s = pre' @ run' @ post'
             \<and> list_all (\<lambda>c. \<not> isDigit c) pre' \<and> run' \<noteq> [] \<and> list_all isDigit run'
             \<and> (case post' of [] \<Rightarrow> True | c # _ \<Rightarrow> \<not> isDigit c))"
    using first_run_exists [of s] by blast
next
  assume "list_all (\<lambda>c. \<not> isDigit c) s"
  then show "extractSalaryValue s = Num 0"
    by (simp add: extractSalaryValue_def match_digits_none)
next
  assume h: "list_all (\<lambda>c. \<not> isDigit c) pre \<and> run \<noteq> [] \<and> list_all isDigit run
        \<and> (case post of [] \<Rightarrow> True | c # _ \<Rightarrow> \<not> isDigit c)"
  then show "extractSalaryValue (pre @ run @ post)
          = (if includes_str (toLowerCase (pre @ run @ post)) ''lpa''
               then timesNumber (toDouble (decimalValue run)) 100000
             else if includes_str (toLowerCase (pre @ run @ post)) ''k''
               then timesNumber (toDouble (decimalValue run)) 1000
             else toDouble (decimalValue run))"
    using extractSalaryValue_run [of pre run post] by blast
next
  assume h: "list_all (\<lambda>c. \<not> isDigit c) pre \<and> run \<noteq> [] \<and> list_all isDigit run
        \<and> (case post of [] \<Rightarrow> True | c # _ \<Rightarrow> \<not> isDigit c)"
  then have run: "extractSalaryValue (pre @ run @ post)
          = (if includes_str (toLowerCase (pre @ run @ post)) ''lpa''
               then timesNumber (toDouble (decimalValue run)) 100000
             else if includes_str (toLowerCase (pre @ run @ post)) ''k''
               then timesNumber (toDouble (decimalValue run)) 1000
             else toDouble (decimalValue run))"
    using extractSalaryValue_run [of pre run post] by blast
  have nn: "0 \<le> decimalValue run"
    using h by (simp add: decimalValue_nonneg)
  show "let m = (if includes_str (toLowerCase (pre @ run @ post)) ''lpa'' then 100000
                     else if includes_str (toLowerCase (pre @ run @ post)) ''k'' then 1000
                     else 1)
           in decimalValue run * m < 2 ^ 53
              \<longrightarrow> extractSalaryValue (pre @ run @ post) = Num (decimalValue run * m)"
    unfolding Let_def run
    using timesNumber_exact [OF nn, of 100000] timesNumber_exact [OF nn, of 1000]
      toDouble_exact [of "decimalValue run"]
    by simp
next
  show "extractSalaryValue ''12k'' = Num 12000"
    by (simp add: extractSalaryValue_def lower_12k isDigit_def parseInt_def digitValue_def
        toDouble_def)
next
  show "extractSalaryValue ''10 LPA'' = Num 1000000"
    by (simp add: extractSalaryValue_def lower_10_LPA isDigit_def parseInt_def digitValue_def
        toDouble_def)
next
  show "extractSalaryValue ''no digits'' = Num 0"
    by (simp add: extractSalaryValue_def lower_no_digits isDigit_def)
next
  show "extractSalaryValue ''9007199254740993'' = Num 9007199254740992"
    by (simp add: extractSalaryValue_def lower_9007199254740993 isDigit_def parseInt_def
        digitValue_def toDouble_def bitLength.simps Let_def)
next
  show "extractSalaryValue ''2882303761519 LPA'' = Num 288230376151900032"
    by (simp add: extractSalaryValue_def lower_2882303761519_LPA isDigit_def parseInt_def
        digitValue_def toDouble_def bitLength.simps Let_def)
qed

theorem extractSalaryValue_spec_witness:
  "extractSalaryValue ''salary unknown'' = Num 0
   \<and> extractSalaryValue (''Rs '' @ ''45'' @ ''K per month, 2 openings'') = Num 45000"
proof -
  have d: "decimalValue ''45'' = 45"
    by (simp add: decimalValue_def digitValue_def lessThan_Suc)
  show ?thesis
    using extractSalaryValue_spec
      [of "''salary unknown''" "''Rs ''" "''45''" "''K per month, 2 openings''"]
    by (simp add: isDigit_def d lower_Rs_45K toDouble_def)
qed


section \<open>Sorting with a comparator\<close>

text \<open>
  \<open>sort_by\<close> permutes its input, and for a comparator that is total and transitive the
  result is ordered by it.
\<close>

lemma set_insert_by: "set (insert_by cmp x ys) = insert x (set ys)"
  by (induction ys) auto

lemma mset_insert_by: "mset (insert_by cmp x ys) = add_mset x (mset ys)"
  by (induction ys) auto

lemma mset_sort_by: "mset (sort_by cmp xs) = mset xs"
  by (induction xs) (simp_all add: sort_by_def mset_insert_by)

lemma set_sort_by: "set (sort_by cmp xs) = set xs"
  by (induction xs) (simp_all add: sort_by_def set_insert_by)

lemma sorted_wrt_insert_by:
  assumes total: "\<And>a b. cmp a b \<le> 0 \<or> cmp b a \<le> 0"
    and trans: "\<And>a b c. cmp a b \<le> 0 \<Longrightarrow> cmp b c \<le> 0 \<Longrightarrow> cmp a c \<le> 0"
    and "sorted_wrt (\<lambda>a b. cmp a b \<le> 0) ys"
  shows "sorted_wrt (\<lambda>a b. cmp a b \<le> 0) (insert_by cmp x ys)"
  using assms(3)
proof (induction ys)
  case Nil
  then show ?case by simp
next
  case (Cons y ys)
  show ?case
  proof (cases "cmp x y \<le> 0")
    case True
    have "cmp x z \<le> 0" if "z \<in> set ys" for z
      using Cons.prems that trans [OF True, of z] by simp
    with True Cons.prems show ?thesis by simp
  next
    case False
    then have "cmp y x \<le> 0" using total [of x y] by simp
    with False Cons show ?thesis by (simp add: set_insert_by)
  qed
qed

lemma sorted_wrt_sort_by:
  assumes "\<And>a b. cmp a b \<le> 0 \<or> cmp b a \<le> 0"
    and "\<And>a b c. cmp a b \<le> 0 \<Longrightarrow> cmp b c \<le> 0 \<Longrightarrow> cmp a c \<le> 0"
  shows "sorted_wrt (\<lambda>a b. cmp a b \<le> 0) (sort_by cmp xs)"
proof (induction xs)
  case Nil
  show ?case by (simp add: sort_by_def)
next
  case (Cons x xs)
  have "sort_by cmp (x # xs) = insert_by cmp x (sort_by cmp xs)"
    by (simp add: sort_by_def)
  then show ?case
    using sorted_wrt_insert_by [of cmp "sort_by cmp xs" x] assms Cons by simp
qed


section \<open>The view engine filters conjunctively\<close>

text \<open>
  Membership in the list \<open>filteredJobs\<close> computes: the pair is one of the scored jobs and
  passes every filter that is set. The sort only reorders.
\<close>

lemma filteredJobs_mem:
  "(job, sc) \<in> set (filteredJobs scored f sh hp p sts) \<longleftrightarrow>
     (job, sc) \<in> set scored
     \<and> (trim (keyword f) \<noteq> [] \<longrightarrow>
          includes_str (toLowerCase (title job)) (toLowerCase (keyword f))
          \<or> includes_str (toLowerCase (company job)) (toLowerCase (keyword f)))
     \<and> (locationF f \<noteq> [] \<longrightarrow> location job = locationF f)
     \<and> (modeF f \<noteq> [] \<longrightarrow> mode job = modeF f)
     \<and> (experienceF f \<noteq> [] \<longrightarrow> experience job = experienceF f)
     \<and> (sourceF f \<noteq> [] \<longrightarrow> source job = sourceF f)
     \<and> (\<forall>wanted. statusF f = Some wanted \<longrightarrow> statusOf sts job = wanted)
     \<and> (sh \<and> hp \<longrightarrow> minMatchScore p \<le> sc)"
  unfolding filteredJobs_def Let_def set_sort_by
  by (cases "statusF f") auto

text \<open>
  Each computation of the view is conjunctive. The set of jobs it retains under a filter
  configuration is the intersection of the sets retained by each of its filters alone
  (keyword, location, mode, experience, source, status, and the threshold toggle); in
  particular the jobs retained for location \<open>X\<close> and mode \<open>Y\<close> are those retained for
  location \<open>X\<close> alone and for mode \<open>Y\<close> alone. A scored job is retained iff it
  satisfies the predicate of every filter that is set: the lower-cased keyword is contained
  in the lower-cased title or company, location, mode, experience and source are equal to
  the filter's value, the status recorded for the job in the status map the computation
  reads (Not Applied when there is none) is the wanted one, and, when the threshold filter
  is active, the score reaches the threshold.
\<close>

lemma filteredJobs_conjunctive:
  "set (filteredJobs scored f sh hp p sts) =
       set (filteredJobs scored (initialFilters\<lparr>keyword := keyword f\<rparr>) False hp p sts)
     \<inter> set (filteredJobs scored (initialFilters\<lparr>locationF := locationF f\<rparr>) False hp p sts)
     \<inter> set (filteredJobs scored (initialFilters\<lparr>modeF := modeF f\<rparr>) False hp p sts)
     \<inter> set (filteredJobs scored (initialFilters\<lparr>experienceF := experienceF f\<rparr>) False hp p sts)
     \<inter> set (filteredJobs scored (initialFilters\<lparr>sourceF := sourceF f\<rparr>) False hp p sts)
     \<inter> set (filteredJobs scored (initialFilters\<lparr>statusF := statusF f\<rparr>) False hp p sts)
     \<inter> set (filteredJobs scored initialFilters sh hp p sts)
   \<and> set (filteredJobs scored (initialFilters\<lparr>locationF := X, modeF := Y\<rparr>) False hp p sts) =
       set (filteredJobs scored (initialFilters\<lparr>locationF := X\<rparr>) False hp p sts)
     \<inter> set (filteredJobs scored (initialFilters\<lparr>modeF := Y\<rparr>) False hp p sts)
   \<and> ((job, sc) \<in> set (filteredJobs scored f sh hp p sts) \<longleftrightarrow>
        (job, sc) \<in> set scored
        \<and> (trim (keyword f) \<noteq> [] \<longrightarrow>
             includes_str (toLowerCase (title job)) (toLowerCase (keyword f))
             \<or> includes_str (toLowerCase (company job)) (toLowerCase (keyword f)))
        \<and> (locationF f \<noteq> [] \<longrightarrow> location job = locationF f)
        \<and> (modeF f \<noteq> [] \<longrightarrow> mode job = modeF f)
        \<and> (experienceF f \<noteq> [] \<longrightarrow> experience job = experienceF f)
        \<and> (sourceF f \<noteq> [] \<longrightarrow> source job = sourceF f)
        \<and> (\<forall>wanted. statusF f = Some wanted \<longrightarrow>
              (case sts (job_id job) of None \<Rightarrow> NotApplied
               | Some statusRecord \<Rightarrow> status statusRecord) = wanted)
        \<and> (sh \<and> hp \<longrightarrow> minMatchScore p \<le> sc))"
proof (intro conjI)
  show "set (filteredJobs scored f sh hp p sts) =
       set (filteredJobs scored (initialFilters\<lparr>keyword := keyword f\<rparr>) False hp p sts)
     \<inter> set (filteredJobs scored (initialFilters\<lparr>locationF := locationF f\<rparr>) False hp p sts)
     \<inter> set (filteredJobs scored (initialFilters\<lparr>modeF := modeF f\<rparr>) False hp p sts)
     \<inter> set (filteredJobs scored (initialFilters\<lparr>experienceF := experienceF f\<rparr>) False hp p sts)
     \<inter> set (filteredJobs scored (initialFilters\<lparr>sourceF := sourceF f\<rparr>) False hp p sts)
     \<inter> set (filteredJobs scored (initialFilters\<lparr>statusF := statusF f\<rparr>) False hp p sts)
     \<inter> set (filteredJobs scored initialFilters sh hp p sts)"
  proof (rule set_eqI)
    fix x :: "Job \<times> int"
    obtain j s where x: "x = (j, s)" by (cases x)
    show "x \<in> set (filteredJobs scored f sh hp p sts) \<longleftrightarrow>
       x \<in> set (filteredJobs scored (initialFilters\<lparr>keyword := keyword f\<rparr>) False hp p sts)
     \<inter> set (filteredJobs scored (initialFilters\<lparr>locationF := locationF f\<rparr>) False hp p sts)
     \<inter> set (filteredJobs scored (initialFilters\<lparr>modeF := modeF f\<rparr>) False hp p sts)
     \<inter> set (filteredJobs scored (initialFilters\<lparr>experienceF := experienceF f\<rparr>) False hp p sts)
     \<inter> set (filteredJobs scored (initialFilters\<lparr>sourceF := sourceF f\<rparr>) False hp p sts)
     \<inter> set (filteredJobs scored (initialFilters\<lparr>statusF := statusF f\<rparr>) False hp p sts)
     \<inter> set (filteredJobs scored initialFilters sh hp p sts)"
      unfolding x Int_iff filteredJobs_mem
      by (simp add: initialFilters_def trim_def) blast
  qed
next
  show "set (filteredJobs scored (initialFilters\<lparr>locationF := X, modeF := Y\<rparr>) False hp p sts) =
       set (filteredJobs scored (initialFilters\<lparr>locationF := X\<rparr>) False hp p sts)
     \<inter> set (filteredJobs scored (initialFilters\<lparr>modeF := Y\<rparr>) False hp p sts)"
  proof (rule set_eqI)
    fix x :: "Job \<times> int"
    obtain j s where x: "x = (j, s)" by (cases x)
    show "x \<in> set (filteredJobs scored (initialFilters\<lparr>locationF := X, modeF := Y\<rparr>) False hp p sts) \<longleftrightarrow>
       x \<in> set (filteredJobs scored (initialFilters\<lparr>locationF := X\<rparr>) False hp p sts)
     \<inter> set (filteredJobs scored (initialFilters\<lparr>modeF := Y\<rparr>) False hp p sts)"
      unfolding x Int_iff filteredJobs_mem
      by (simp add: initialFilters_def trim_def) blast
  qed
next
  show "(job, sc) \<in> set (filteredJobs scored f sh hp p sts) \<longleftrightarrow>
        (job, sc) \<in> set scored
        \<and> (trim (keyword f) \<noteq> [] \<longrightarrow>
             includes_str (toLowerCase (title job)) (toLowerCase (keyword f))
             \<or> includes_str (toLowerCase (company job)) (toLowerCase (keyword f)))
        \<and> (locationF f \<noteq> [] \<longrightarrow> location job = locationF f)
        \<and> (modeF f \<noteq> [] \<longrightarrow> mode job = modeF f)
        \<and> (experienceF f \<noteq> [] \<longrightarrow> experience job = experienceF f)
        \<and> (sourceF f \<noteq> [] \<longrightarrow> source job = sourceF f)
        \<and> (\<forall>wanted. statusF f = Some wanted \<longrightarrow>
              (case sts (job_id job) of None \<Rightarrow> NotApplied
               | Some statusRecord \<Rightarrow> status statusRecord) = wanted)
        \<and> (sh \<and> hp \<longrightarrow> minMatchScore p \<le> sc)"
    by (simp add: filteredJobs_mem statusOf_def)
qed


lemma scored_catalog:
  "jobsWithScores [jobA, jobB, jobC] reactPreferences = [(jobA, 35), (jobB, 0), (jobC, 45)]"
  by code_simp

lemma catalog_fields:
  "title jobA = ''React Developer''" "company jobA = ''Acme''" "location jobA = ''Pune''"
  "mode jobA = ''Remote''" "job_id jobA = 1"
  "title jobC = ''React Intern''" "company jobC = ''Globex''" "location jobC = ''Pune''"
  "mode jobC = ''Hybrid''" "job_id jobC = 3"
  by (simp_all add: jobA_def jobC_def)

lemma filteredJobs_catalog:
  "map (\<lambda>(job, sc). (job_id job, sc))
     (filteredJobs (jobsWithScores [jobA, jobB, jobC] reactPreferences)
        (initialFilters\<lparr> keyword := ''REACT'', locationF := ''Pune'',
                         statusF := Some Applied \<rparr>)
        False True reactPreferences
        [3 \<mapsto> \<lparr> status = Applied, updatedAt = ''2026-01-05T09:00:00.000Z'' \<rparr>])
   = [(3, 45)]"
  by code_simp



section \<open>Jobs without a status record\<close>

text \<open>
  C8: a job with no record in the status store is reported as Not Applied, on its card
  and to the status filter. Filtering by the status Not Applied never removes such a
  job (it is retained exactly when it is retained without the status filter), and with
  that filter alone every such job of the catalog is in the view.
\<close>

theorem notApplied_default:
  assumes "sts (job_id job) = None"
  shows "cardStatus sts job = NotApplied
    \<and> statusOf sts job = NotApplied
    \<and> (statusF f = Some NotApplied \<longrightarrow>
         ((job, sc) \<in> set (filteredJobs scored f sh hp p sts)
          \<longleftrightarrow> (job, sc) \<in> set (filteredJobs scored (f\<lparr>statusF := None\<rparr>) sh hp p sts)))
    \<and> (job \<in> set jobs \<longrightarrow>
         (job, computeMatchScore job p)
           \<in> set (dashboardJobs jobs p sts (initialFilters\<lparr>statusF := Some NotApplied\<rparr>) False))"
proof -
  have s: "statusOf sts job = NotApplied"
    using assms by (simp add: statusOf_def)
  have c: "cardStatus sts job = NotApplied"
    using assms by (simp add: cardStatus_def)
  have "(job, computeMatchScore job p) \<in> set (jobsWithScores jobs p)" if "job \<in> set jobs"
    using that by (auto simp: jobsWithScores_def)
  then show ?thesis
    using s c by (simp add: filteredJobs_mem dashboardJobs_def initialFilters_def trim_def)
qed

theorem notApplied_default_witness:
  "cardStatus [2 \<mapsto> \<lparr>status = Applied, updatedAt = ''2026-01-05T10:00:00.000Z''\<rparr>] jobA = NotApplied
   \<and> (jobA, 35) \<in> set (dashboardJobs [jobA, jobB, jobC] reactPreferences
         [2 \<mapsto> \<lparr>status = Applied, updatedAt = ''2026-01-05T10:00:00.000Z''\<rparr>]
         (initialFilters\<lparr>statusF := Some NotApplied\<rparr>) False)"
proof -
  have h: "[2 \<mapsto> \<lparr>status = Applied, updatedAt = ''2026-01-05T10:00:00.000Z''\<rparr>] (job_id jobA)
             = None"
    by (simp add: jobA_def)
  have sc: "computeMatchScore jobA reactPreferences = 35" by code_simp
  show ?thesis
    using notApplied_default
        [where sts = "[2 \<mapsto> \<lparr>status = Applied, updatedAt = ''2026-01-05T10:00:00.000Z''\<rparr>]"
           and job = jobA and p = reactPreferences and jobs = "[jobA, jobB, jobC]", OF h]
        sc
    by simp
qed


section \<open>The threshold filter and its gate\<close>








section \<open>Digest generation\<close>

text \<open>
  The digest comparator orders by descending score and, among equal scores, by ascending
  days since posting; it is total and transitive, so the sorted list is ordered by it.
\<close>

lemma compareDigest_le:
  "compareDigest a b \<le> 0 \<longleftrightarrow>
     snd b < snd a \<or> (snd a = snd b \<and> postedDaysAgo (fst a) \<le> postedDaysAgo (fst b))"
  by (auto simp: compareDigest_def)

lemma sorted_wrt_compareDigest:
  "sorted_wrt (\<lambda>a b. compareDigest a b \<le> 0) (sort_by compareDigest xs)"
proof (rule sorted_wrt_sort_by)
  fix a b :: "Job \<times> int"
  show "compareDigest a b \<le> 0 \<or> compareDigest b a \<le> 0"
    unfolding compareDigest_le by linarith
next
  fix a b c :: "Job \<times> int"
  assume "compareDigest a b \<le> 0" and "compareDigest b c \<le> 0"
  then show "compareDigest a c \<le> 0"
    unfolding compareDigest_le by linarith
qed

text \<open>
  When digest generation runs with preferences set and today's key holds no entry, an
  empty text, or a JSON value without an \<open>items\<close> array, it scores the whole catalog
  and keeps exactly the jobs with a positive score (\<open>srt\<close> is a permutation of them),
  ordered by descending score with ties by ascending days since posting; the first 10 of
  them, as (job id, score) pairs, are persisted under today's key and shown. The
  persisted snapshot has at most 10 entries.
\<close>

lemma generateDigest_fresh:
  assumes "storage st digestKey \<in> {None, Some EmptyText, Some NoItemsArray}"
  shows "\<exists>srt.
      mset srt = mset (filter (\<lambda>(job, sc). 0 < sc)
                         (map (\<lambda>job. (job, computeMatchScore job p)) JOBS))
    \<and> sorted_wrt (\<lambda>a b. snd b < snd a
            \<or> (snd a = snd b \<and> postedDaysAgo (fst a) \<le> postedDaysAgo (fst b))) srt
    \<and> generateDigest JOBS p True digestKey dateStr st =
        Inr (st\<lparr> storage := (storage st)(digestKey \<mapsto>
                   Snapshot (map (\<lambda>(job, sc). \<lparr> jobId = job_id job, score = sc \<rparr>) (take 10 srt))),
                 digest := Some \<lparr> date = dateStr,
                   items = map (\<lambda>(job, sc). \<lparr> jobId = job_id job, score = sc \<rparr>) (take 10 srt) \<rparr>,
                 noMatchesToday := (srt = []),
                 isGenerating := False \<rparr>)
    \<and> length (map (\<lambda>(job, sc). \<lparr> jobId = job_id job, score = sc \<rparr>) (take 10 srt)) \<le> 10"
proof -
  define matching where
    "matching = filter (\<lambda>(job, sc). 0 < sc) (map (\<lambda>job. (job, computeMatchScore job p)) JOBS)"
  define srt where "srt = sort_by compareDigest matching"
  have m: "mset srt = mset matching"
    by (simp add: srt_def mset_sort_by)
  have s: "sorted_wrt (\<lambda>a b. snd b < snd a
            \<or> (snd a = snd b \<and> postedDaysAgo (fst a) \<le> postedDaysAgo (fst b))) srt"
    using sorted_wrt_compareDigest [of matching]
    by (simp add: srt_def compareDigest_le)
  have e: "srt = [] \<longleftrightarrow> matching = []"
    using m by (metis mset_zero_iff)
  have g: "generateDigest JOBS p True digestKey dateStr st
             = Inr (computeDigest JOBS p digestKey dateStr st)"
    using assms by (auto simp: generateDigest_def)
  have c: "computeDigest JOBS p digestKey dateStr st =
        st\<lparr> storage := (storage st)(digestKey \<mapsto>
                   Snapshot (map (\<lambda>(job, sc). \<lparr> jobId = job_id job, score = sc \<rparr>) (take 10 srt))),
                 digest := Some \<lparr> date = dateStr,
                   items = map (\<lambda>(job, sc). \<lparr> jobId = job_id job, score = sc \<rparr>) (take 10 srt) \<rparr>,
                 noMatchesToday := (srt = []),
                 isGenerating := False \<rparr>"
  proof (cases "matching = []")
    case True
    then have "srt = []" using e by simp
    with True show ?thesis
      by (simp add: computeDigest_def Let_def matching_def [symmetric])
  next
    case False
    then have "srt \<noteq> []" using e by simp
    with False show ?thesis
      by (simp add: computeDigest_def Let_def matching_def [symmetric] srt_def [symmetric])
  qed
  show ?thesis
    using m s g c unfolding matching_def by (intro exI [of _ srt]) simp
qed

lemma generateDigest_fresh_catalog:
  "\<exists>st' its. generateDigest [jobA, jobB, jobC] reactPreferences True (digestKeyOf today) today
        (openDigestPage Map.empty (digestKeyOf today) today) = Inr st'
     \<and> storage st' (digestKeyOf today) = Some (Snapshot its) \<and> length its \<le> 10"
proof -
  have h: "storage (openDigestPage Map.empty (digestKeyOf today) today) (digestKeyOf today)
             \<in> {None, Some EmptyText, Some NoItemsArray}"
    by (simp add: openDigestPage_def)
  show ?thesis
    using generateDigest_fresh [OF h, of reactPreferences "[jobA, jobB, jobC]" today]
    by (elim exE conjE) simp
qed

text \<open>On the small catalog the digest is job 3 (score 45), then job 1 (score 35).\<close>

lemma computeDigest_catalog:
  "computeDigest [jobA, jobB, jobC] reactPreferences (digestKeyOf today) today
        (openDigestPage Map.empty (digestKeyOf today) today)
   = (openDigestPage Map.empty (digestKeyOf today) today)
       \<lparr> storage := (storage (openDigestPage Map.empty (digestKeyOf today) today))
            (digestKeyOf today \<mapsto> Snapshot [\<lparr> jobId = 3, score = 45 \<rparr>, \<lparr> jobId = 1, score = 35 \<rparr>]),
         digest := Some \<lparr> date = today, items = [\<lparr> jobId = 3, score = 45 \<rparr>, \<lparr> jobId = 1, score = 35 \<rparr>] \<rparr>,
         noMatchesToday := False, isGenerating := False \<rparr>"
proof -
  have sc: "map (\<lambda>job. (job, computeMatchScore job reactPreferences)) [jobA, jobB, jobC]
      = [(jobA, 35), (jobB, 0), (jobC, 45)]"
    using scored_catalog by (simp add: jobsWithScores_def)
  show ?thesis
    unfolding computeDigest_def sc
    by (simp add: Let_def sort_by_def compareDigest_def catalog_fields)
qed


text \<open>
  A text under today's key that \<open>JSON.parse\<close> rejects is no snapshot either (the effect
  that loads the snapshot when the page opens catches the error and shows the prompt),
  but \<open>generateDigest\<close> parses it outside any \<open>catch\<close>.
\<close>

lemma generateDigest_unparsable:
  assumes "storage st digestKey = Some Unparsable"
  shows "generateDigest JOBS p True digestKey dateStr st
           = Inl (SyntaxError, st\<lparr> isGenerating := False \<rparr>)"
  using assms by (simp add: generateDigest_def)

text \<open>
  C5 (failing input): the specification has generation, with preferences set and no snapshot
  stored for today, score the catalog and persist the top 10. With a text that is not
  JSON under today's key no snapshot exists: the page opens on the prompt, with no digest.
  Generating with the role keyword \<open>react\<close> over jobs 1, 2, 3 (jobs 3 and 1 score 45
  and 35) throws the \<open>SyntaxError\<close> of \<open>JSON.parse\<close>: the page is left as it was and
  today's key still holds the broken text.
\<close>

theorem generateDigest_fresh_unparsable:
  "digestViewOf [jobA, jobB, jobC] (openDigestPage brokenStore (digestKeyOf today) today)
     = PromptView
   \<and> digest (openDigestPage brokenStore (digestKeyOf today) today) = None
   \<and> computeMatchScore jobC reactPreferences = 45
   \<and> generateDigest [jobA, jobB, jobC] reactPreferences True (digestKeyOf today) today
        (openDigestPage brokenStore (digestKeyOf today) today)
     = Inl (SyntaxError, openDigestPage brokenStore (digestKeyOf today) today)
   \<and> storage (openDigestPage brokenStore (digestKeyOf today) today) (digestKeyOf today)
     = Some Unparsable"
proof -
  have sc: "computeMatchScore jobC reactPreferences = 45"
    by code_simp
  have st: "storage (openDigestPage brokenStore (digestKeyOf today) today) (digestKeyOf today)
              = Some Unparsable"
    by (simp add: openDigestPage_def brokenStore_def)
  have pg: "openDigestPage brokenStore (digestKeyOf today) today
              = \<lparr> storage = brokenStore, digest = None, isGenerating = False,
                  noMatchesToday = False \<rparr>"
    by (simp add: openDigestPage_def brokenStore_def)
  have g: "generateDigest [jobA, jobB, jobC] reactPreferences True (digestKeyOf today) today
        (openDigestPage brokenStore (digestKeyOf today) today)
     = Inl (SyntaxError, openDigestPage brokenStore (digestKeyOf today) today)"
    unfolding pg by (simp add: generateDigest_def brokenStore_def)
  show ?thesis
    using sc st g by (simp add: pg digestViewOf_def digestJobs_def)
qed


section \<open>Digest generation is idempotent within a day\<close>

lemma sort_by_Nil_iff: "sort_by cmp xs = [] \<longleftrightarrow> xs = []"
  using mset_sort_by [of cmp xs] by (metis mset_zero_iff)

lemma storage_computeDigest:
  "\<exists>its. storage (computeDigest JOBS p digestKey dateStr st) digestKey = Some (Snapshot its)
     \<and> digest (computeDigest JOBS p digestKey dateStr st) = Some \<lparr> date = dateStr, items = its \<rparr>
     \<and> noMatchesToday (computeDigest JOBS p digestKey dateStr st) = (its = [])
     \<and> isGenerating (computeDigest JOBS p digestKey dateStr st) = False"
  by (auto simp: computeDigest_def Let_def sort_by_Nil_iff)

lemma generateDigest_reload:
  assumes "storage st digestKey = Some (Snapshot its)"
  shows "generateDigest JOBS p True digestKey dateStr st =
           Inr (st\<lparr> digest := Some \<lparr> date = dateStr, items = its \<rparr>,
                    noMatchesToday := (its = []),
                    isGenerating := False \<rparr>)"
  using assms by (simp add: generateDigest_def)

lemma generateDigest_settled:
  assumes "generateDigest JOBS p True digestKey dateStr st = Inr st1"
  shows "\<exists>its. storage st1 digestKey = Some (Snapshot its)
     \<and> digest st1 = Some \<lparr> date = dateStr, items = its \<rparr>
     \<and> noMatchesToday st1 = (its = [])
     \<and> isGenerating st1 = False"
proof (cases "\<exists>its. storage st digestKey = Some (Snapshot its)")
  case True
  then obtain its where "storage st digestKey = Some (Snapshot its)" by blast
  with assms show ?thesis by (auto simp: generateDigest_reload)
next
  case False
  then have "st1 = computeDigest JOBS p digestKey dateStr st"
    using assms by (auto simp: generateDigest_def split: option.splits stored.splits)
  then show ?thesis using storage_computeDigest by simp
qed

text \<open>
  C6: if a snapshot is stored under today's key, generating with any preferences
  exposes exactly the stored items and leaves the storage as it is (with no preferences
  set, generating does nothing at all). Once a generation has returned, generating again
  for the same date, with the same or with other preferences, returns the same state:
  the snapshot is identical.
\<close>

theorem generateDigest_idempotent:
  "(storage st digestKey = Some (Snapshot its) \<longrightarrow>
      generateDigest JOBS p True digestKey dateStr st =
        Inr (st\<lparr> digest := Some \<lparr> date = dateStr, items = its \<rparr>,
                 noMatchesToday := (its = []),
                 isGenerating := False \<rparr>)
      \<and> generateDigest JOBS p False digestKey dateStr st = Inr st
      \<and> (\<forall>st'. generateDigest JOBS p hp digestKey dateStr st = Inr st'
             \<longrightarrow> storage st' = storage st))
   \<and> (generateDigest JOBS p True digestKey dateStr st = Inr st1 \<longrightarrow>
        generateDigest JOBS p' hp' digestKey dateStr st1 = Inr st1)"
proof (intro conjI impI allI)
  assume "storage st digestKey = Some (Snapshot its)"
  then show "generateDigest JOBS p True digestKey dateStr st =
        Inr (st\<lparr> digest := Some \<lparr> date = dateStr, items = its \<rparr>,
                 noMatchesToday := (its = []),
                 isGenerating := False \<rparr>)"
    by (rule generateDigest_reload)
next
  show "generateDigest JOBS p False digestKey dateStr st = Inr st"
    by (simp add: generateDigest_def)
next
  fix st'
  assume "storage st digestKey = Some (Snapshot its)"
    and "generateDigest JOBS p hp digestKey dateStr st = Inr st'"
  then show "storage st' = storage st"
    by (cases hp) (auto simp: generateDigest_def)
next
  assume "generateDigest JOBS p True digestKey dateStr st = Inr st1"
  from generateDigest_settled [OF this] obtain its1 where
    a: "storage st1 digestKey = Some (Snapshot its1)"
    and b: "digest st1 = Some \<lparr> date = dateStr, items = its1 \<rparr>"
    and c: "noMatchesToday st1 = (its1 = [])"
    and d: "isGenerating st1 = False"
    by blast
  have "st1\<lparr> digest := Some \<lparr> date = dateStr, items = its1 \<rparr>,
             noMatchesToday := (its1 = []), isGenerating := False \<rparr> = st1"
    using b c d by simp
  then show "generateDigest JOBS p' hp' digestKey dateStr st1 = Inr st1"
    using a by (cases hp') (simp_all add: generateDigest_def)
qed

theorem generateDigest_idempotent_witness:
  "generateDigest [jobA, jobB, jobC] reactPreferences True (digestKeyOf today) today
      (openDigestPage [digestKeyOf today \<mapsto> Snapshot [\<lparr> jobId = 2, score = 50 \<rparr>]]
         (digestKeyOf today) today)
    = Inr (openDigestPage [digestKeyOf today \<mapsto> Snapshot [\<lparr> jobId = 2, score = 50 \<rparr>]]
         (digestKeyOf today) today)
   \<and> generateDigest [jobA, jobB, jobC] defaultPreferences False (digestKeyOf today) today
      (openDigestPage [digestKeyOf today \<mapsto> Snapshot [\<lparr> jobId = 2, score = 50 \<rparr>]]
         (digestKeyOf today) today)
    = Inr (openDigestPage [digestKeyOf today \<mapsto> Snapshot [\<lparr> jobId = 2, score = 50 \<rparr>]]
         (digestKeyOf today) today)"
proof -
  have h: "storage (openDigestPage [digestKeyOf today \<mapsto> Snapshot [\<lparr> jobId = 2, score = 50 \<rparr>]]
             (digestKeyOf today) today) (digestKeyOf today)
           = Some (Snapshot [\<lparr> jobId = 2, score = 50 \<rparr>])"
    by (simp add: openDigestPage_def)
  note inst = generateDigest_idempotent
      [where st = "openDigestPage [digestKeyOf today \<mapsto> Snapshot [\<lparr> jobId = 2, score = 50 \<rparr>]]
             (digestKeyOf today) today"
         and digestKey = "digestKeyOf today" and dateStr = today
         and its = "[\<lparr> jobId = 2, score = 50 \<rparr>]"
         and JOBS = "[jobA, jobB, jobC]" and p = reactPreferences
         and p' = defaultPreferences and hp' = False]
  have first: "generateDigest [jobA, jobB, jobC] reactPreferences True (digestKeyOf today) today
      (openDigestPage [digestKeyOf today \<mapsto> Snapshot [\<lparr> jobId = 2, score = 50 \<rparr>]]
         (digestKeyOf today) today)
    = Inr (openDigestPage [digestKeyOf today \<mapsto> Snapshot [\<lparr> jobId = 2, score = 50 \<rparr>]]
         (digestKeyOf today) today)"
    using inst h by (simp add: openDigestPage_def)
  then show ?thesis
    using inst by blast
qed


section \<open>The empty digest\<close>

text \<open>
  If every job of the catalog scores 0 under the preferences (which are set), and today's
  key holds no entry, an empty text, or a JSON value without an \<open>items\<close> array,
  generation persists the snapshot with no items under today's key and the page shows the
  empty view, now and when it is opened again. Before, with no snapshot stored, the page
  showed the prompt to generate: the two states differ, in the storage and on the page.
\<close>

lemma generateDigest_empty:
  assumes "\<forall>job \<in> set JOBS. computeMatchScore job p = 0"
    and "storage st digestKey \<in> {None, Some EmptyText, Some NoItemsArray}"
  shows "\<exists>st'. generateDigest JOBS p True digestKey dateStr st = Inr st'
      \<and> storage st' digestKey = Some (Snapshot [])
      \<and> digest st' = Some \<lparr> date = dateStr, items = [] \<rparr>
      \<and> noMatchesToday st'
      \<and> digestViewOf JOBS st' = EmptyView
      \<and> digestViewOf JOBS (openDigestPage (storage st') digestKey dateStr) = EmptyView
      \<and> digestViewOf JOBS (openDigestPage (storage st) digestKey dateStr) = PromptView
      \<and> storage st' digestKey \<noteq> storage st digestKey"
proof -
  have none: "filter (\<lambda>(job, sc). 0 < sc) (map (\<lambda>job. (job, computeMatchScore job p)) JOBS) = []"
    using assms(1) by (auto simp: filter_empty_conv)
  have g: "generateDigest JOBS p True digestKey dateStr st
             = Inr (computeDigest JOBS p digestKey dateStr st)"
    using assms(2) by (auto simp: generateDigest_def)
  have c: "computeDigest JOBS p digestKey dateStr st =
             st\<lparr> storage := (storage st)(digestKey \<mapsto> Snapshot []),
                 digest := Some \<lparr> date = dateStr, items = [] \<rparr>,
                 noMatchesToday := True,
                 isGenerating := False \<rparr>"
    by (simp add: computeDigest_def Let_def none)
  have before: "digestViewOf JOBS (openDigestPage (storage st) digestKey dateStr) = PromptView"
    using assms(2) by (auto simp: openDigestPage_def digestViewOf_def digestJobs_def)
  have changed: "Some (Snapshot []) \<noteq> storage st digestKey"
    using assms(2) by auto
  show ?thesis
    unfolding g c using before changed
    by (simp add: digestViewOf_def openDigestPage_def)
qed

lemma generateDigest_empty_catalog:
  "\<exists>st'. generateDigest [jobB] reactPreferences True (digestKeyOf today) today
        (openDigestPage Map.empty (digestKeyOf today) today) = Inr st'
      \<and> storage st' (digestKeyOf today) = Some (Snapshot [])
      \<and> digestViewOf [jobB] st' = EmptyView"
proof -
  have h1: "\<forall>job \<in> set [jobB]. computeMatchScore job reactPreferences = 0"
    by code_simp
  have h2: "storage (openDigestPage Map.empty (digestKeyOf today) today) (digestKeyOf today)
             \<in> {None, Some EmptyText, Some NoItemsArray}"
    by (simp add: openDigestPage_def)
  show ?thesis
    using generateDigest_empty [OF h1 h2, of today]
    by (elim exE conjE) blast
qed


text \<open>
  C7 (failing input): the specification has generation persist the snapshot with no items and
  show the empty view when every job scores 0. The catalog is job 2 alone, which scores 0
  for the role keyword \<open>react\<close>, and today's key holds a text that is not JSON, so no
  snapshot is stored. Generating throws the \<open>SyntaxError\<close> of \<open>JSON.parse\<close>: nothing is
  persisted (today's key still holds the broken text) and the page stays on the prompt
  instead of the empty view.
\<close>

theorem generateDigest_empty_unparsable:
  "computeMatchScore jobB reactPreferences = 0
   \<and> generateDigest [jobB] reactPreferences True (digestKeyOf today) today
        (openDigestPage brokenStore (digestKeyOf today) today)
     = Inl (SyntaxError, openDigestPage brokenStore (digestKeyOf today) today)
   \<and> storage (openDigestPage brokenStore (digestKeyOf today) today) (digestKeyOf today)
     = Some Unparsable
   \<and> noMatchesToday (openDigestPage brokenStore (digestKeyOf today) today) = False
   \<and> digestViewOf [jobB] (openDigestPage brokenStore (digestKeyOf today) today) = PromptView"
proof -
  have sc: "computeMatchScore jobB reactPreferences = 0"
    by code_simp
  have pg: "openDigestPage brokenStore (digestKeyOf today) today
              = \<lparr> storage = brokenStore, digest = None, isGenerating = False,
                  noMatchesToday = False \<rparr>"
    by (simp add: openDigestPage_def brokenStore_def)
  have g: "generateDigest [jobB] reactPreferences True (digestKeyOf today) today
        (openDigestPage brokenStore (digestKeyOf today) today)
     = Inl (SyntaxError, openDigestPage brokenStore (digestKeyOf today) today)"
    unfolding pg by (simp add: generateDigest_def brokenStore_def)
  have st: "storage (openDigestPage brokenStore (digestKeyOf today) today) (digestKeyOf today)
              = Some Unparsable"
    by (simp add: openDigestPage_def brokenStore_def)
  show ?thesis
    using sc st g by (simp add: pg digestViewOf_def digestJobs_def)
qed


section \<open>The saved set has no duplicates\<close>

lemma distinct_handleSaveJob:
  "distinct (savedJobIds st) \<Longrightarrow> distinct (savedJobIds (handleSaveJob i st))"
  by (simp add: handleSaveJob_def Let_def)

lemma savedInv_step: "savedInv st \<Longrightarrow> savedInv (step a st)"
  by (cases a)
    (auto simp: savedInv_def handleSaveJob_def restart_def loadSaved_def Let_def
      split: option.splits)

lemma savedInv_fold: "savedInv st \<Longrightarrow> savedInv (fold step acts st)"
  by (induction acts arbitrary: st) (simp_all add: savedInv_step)

text \<open>
  C10: saving an identifier that is already saved changes nothing, in memory or in the
  persisted list. Saving a new identifier appends it to the list, persists the new list,
  and the identifier occurs once in it. Saving preserves distinctness, and after any
  sequence of saves and restarts from the initial state the saved identifiers are
  distinct.
\<close>

theorem handleSaveJob_no_duplicates:
  "(i \<in> set (savedJobIds st) \<longrightarrow> handleSaveJob i st = st)
   \<and> (i \<notin> set (savedJobIds st) \<longrightarrow>
        savedJobIds (handleSaveJob i st) = savedJobIds st @ [i]
        \<and> savedStore (handleSaveJob i st) = Some (savedJobIds st @ [i])
        \<and> count_list (savedJobIds (handleSaveJob i st)) i = 1)
   \<and> (distinct (savedJobIds st) \<longrightarrow> distinct (savedJobIds (handleSaveJob i st)))
   \<and> distinct (savedJobIds (fold step acts initialSaved))"
proof (intro conjI impI)
  assume "i \<in> set (savedJobIds st)"
  then show "handleSaveJob i st = st"
    by (simp add: handleSaveJob_def)
next
  assume "i \<notin> set (savedJobIds st)"
  then show "savedJobIds (handleSaveJob i st) = savedJobIds st @ [i]"
    by (simp add: handleSaveJob_def Let_def)
next
  assume "i \<notin> set (savedJobIds st)"
  then show "savedStore (handleSaveJob i st) = Some (savedJobIds st @ [i])"
    by (simp add: handleSaveJob_def Let_def)
next
  assume "i \<notin> set (savedJobIds st)"
  then show "count_list (savedJobIds (handleSaveJob i st)) i = 1"
    by (simp add: handleSaveJob_def Let_def count_list_0_iff)
next
  assume "distinct (savedJobIds st)"
  then show "distinct (savedJobIds (handleSaveJob i st))"
    by (rule distinct_handleSaveJob)
next
  have "savedInv initialSaved"
    by (simp add: savedInv_def initialSaved_def)
  then have "savedInv (fold step acts initialSaved)"
    by (rule savedInv_fold)
  then show "distinct (savedJobIds (fold step acts initialSaved))"
    by (simp add: savedInv_def)
qed

theorem handleSaveJob_no_duplicates_witness:
  "handleSaveJob 3 \<lparr> savedJobIds = [3, 1], savedStore = Some [3, 1] \<rparr>
     = \<lparr> savedJobIds = [3, 1], savedStore = Some [3, 1] \<rparr>
   \<and> handleSaveJob 2 \<lparr> savedJobIds = [3, 1], savedStore = Some [3, 1] \<rparr>
     = \<lparr> savedJobIds = [3, 1, 2], savedStore = Some [3, 1, 2] \<rparr>
   \<and> distinct (savedJobIds
        (fold step [SaveJob 3, SaveJob 1, SaveJob 3, Restart, SaveJob 1, SaveJob 2] initialSaved))"
  using handleSaveJob_no_duplicates
      [of 3 "\<lparr> savedJobIds = [3, 1], savedStore = Some [3, 1] \<rparr>"
        "[SaveJob 3, SaveJob 1, SaveJob 3, Restart, SaveJob 1, SaveJob 2]"]
    handleSaveJob_no_duplicates
      [of 2 "\<lparr> savedJobIds = [3, 1], savedStore = Some [3, 1] \<rparr>" "[]"]
  by (simp add: handleSaveJob_def)

end
